theory Spec2Isabelle
  imports
    Complex_Main
    "HOL-Library.AList"
    "HOL-Library.List_Lexorder"
    "HOL-Library.Char_ord"
begin

section \<open>LiveMedBench: data model\<close>

text \<open>
  The three scripts exchange JSON files. The model types those files as the docstrings
  of the scripts document them: a field read with \<^verbatim>\<open>d.get(key, default)\<close> holds
  the default when the key is absent, text is a \<open>string\<close>, and \<^verbatim>\<open>points\<close> is a
  number. Python computes the scores in floating point; the model computes them in
  \<open>real\<close>, so rounding is not part of it. A Python \<^verbatim>\<open>dict\<close> keeps its keys in
  insertion order and an assignment to a present key keeps the key's place: it is an
  association list, updated with \<open>AList.update\<close>.

  A \<^verbatim>\<open>case_id\<close> is a JSON string or a JSON integer. \<open>None\<close> in an optional
  \<^verbatim>\<open>case_id\<close> is what \<^verbatim>\<open>d.get("case_id")\<close> gives for a missing key and for a
  JSON \<^verbatim>\<open>null\<close>.
\<close>

datatype pyid = IdStr string | IdInt int

record rubric_item =
  criterion :: string
  points :: real
  axe :: string

record criterion_judgment =
  j_criterion :: string
  j_points :: real
  j_axe :: string
  j_score :: int
  j_weighted_score :: real

type_synonym evaluations = "(string \<times> criterion_judgment) list"

record eval_record =
  er_case_id :: "pyid option"
  er_evaluations :: evaluations

record rubric_case =
  rc_case_id :: "pyid option"
  rc_post_time :: string
  rc_narrative :: string
  rc_core_request :: string
  rc_rubric_items :: "rubric_item list"

subsection \<open>Decimal rendering: \<^verbatim>\<open>str(n)\<close> and the f-strings\<close>

definition digit_char :: "nat \<Rightarrow> char" where
  "digit_char d = char_of (48 + d)"

function str_nat :: "nat \<Rightarrow> string" where
  "str_nat n = (if n < 10 then [digit_char n] else str_nat (n div 10) @ [digit_char (n mod 10)])"
  by pat_completeness auto
termination
  by (relation "measure id") auto

declare str_nat.simps [simp del]

definition str_int :: "int \<Rightarrow> string" where
  "str_int i = (if i < 0 then CHR ''-'' # str_nat (nat (- i)) else str_nat (nat i))"

fun str_id :: "pyid \<Rightarrow> string" where
  "str_id (IdStr s) = s"
| "str_id (IdInt i) = str_int i"

section \<open>metric\_calc.py: the Score Normalizer\<close>

text \<open>
  \<^verbatim>\<open>calculate_max_possible_score\<close>: the early return on an empty rubric, then the loop
  adding \<^verbatim>\<open>float(points)\<close> for every item with \<^verbatim>\<open>points > 0\<close>. The
  \<^verbatim>\<open>isinstance(points, (int, float))\<close> test holds of every typed item.
\<close>

definition calculate_max_possible_score :: "rubric_item list \<Rightarrow> real" where
  "calculate_max_possible_score rubric_items =
     (if rubric_items = [] then 0
      else foldl (\<lambda>max_score item.
                    if points item > 0 then max_score + points item else max_score)
                 0 rubric_items)"

text \<open>
  \<^verbatim>\<open>calculate_case_total_score\<close>: \<open>rubric_criteria\<close> is the dictionary the first loop
  builds (only items with a non-empty criterion enter it); the second loop runs over
  \<^verbatim>\<open>evaluations.items()\<close>.
\<close>

definition rubric_criteria :: "rubric_item list \<Rightarrow> (string \<times> real) list" where
  "rubric_criteria rubric_items =
     foldl (\<lambda>d item. if criterion item \<noteq> [] then AList.update (criterion item) (points item) d
                      else d)
           [] rubric_items"

definition calculate_case_total_score :: "evaluations \<Rightarrow> rubric_item list \<Rightarrow> real" where
  "calculate_case_total_score evals rubric_items =
     (if evals = [] \<or> rubric_items = [] then 0
      else foldl (\<lambda>total_score (key, rubric_data).
                    if j_criterion rubric_data = []
                       \<or> map_of (rubric_criteria rubric_items) (j_criterion rubric_data) = None
                    then total_score
                    else total_score + j_weighted_score rubric_data)
                 0 evals)"

text \<open>The score of one case, as \<^verbatim>\<open>calculate_model_scores\<close> computes it in its loop.\<close>

definition per_example_score :: "evaluations \<Rightarrow> rubric_item list \<Rightarrow> real" where
  "per_example_score evals rubric_items =
     (let total_score = calculate_case_total_score evals rubric_items;
          max_possible_score = calculate_max_possible_score rubric_items
      in if max_possible_score > 0 then total_score / max_possible_score else 0)"

section \<open>metric\_calc.py: the Aggregator\<close>


























section \<open>Python text\<close>

text \<open>
  A \<open>char\<close> is a code point below 256. On these, \<^verbatim>\<open>str.isspace\<close> holds of the
  twelve characters below, and \<^verbatim>\<open>str.lower\<close> moves the ASCII capitals and the
  Latin-1 capitals by 32.
\<close>

definition py_isspace :: "char \<Rightarrow> bool" where
  "py_isspace c =
     (let n = (of_char c :: nat)
      in (9 \<le> n \<and> n \<le> 13) \<or> (28 \<le> n \<and> n \<le> 32) \<or> n = 133 \<or> n = 160)"

definition strip :: "string \<Rightarrow> string" where
  "strip s = rev (dropWhile py_isspace (rev (dropWhile py_isspace s)))"

definition lower_char :: "char \<Rightarrow> char" where
  "lower_char c =
     (let n = (of_char c :: nat)
      in if (65 \<le> n \<and> n \<le> 90) \<or> (192 \<le> n \<and> n \<le> 222 \<and> n \<noteq> 215)
         then char_of (n + 32) else c)"

definition py_lower :: "string \<Rightarrow> string" where
  "py_lower s = map lower_char s"

text \<open>\<^verbatim>\<open>sub in text\<close> on strings.\<close>

fun contains :: "string \<Rightarrow> string \<Rightarrow> bool" where
  "contains sub [] = (sub = [])"
| "contains sub (c # cs) = (take (length sub) (c # cs) = sub \<or> contains sub cs)"

datatype py_error = ValueError | TypeError

text \<open>
  \<^verbatim>\<open>int(s)\<close> on a string of decimal digits. Every other string is taken to raise
  \<^verbatim>\<open>ValueError\<close> (Python also accepts a sign, blanks around the number and
  underscores between digits).
\<close>

definition is_digit :: "char \<Rightarrow> bool" where
  "is_digit c = (48 \<le> (of_char c :: nat) \<and> (of_char c :: nat) \<le> 57)"

definition py_int :: "string \<Rightarrow> py_error + int" where
  "py_int s =
     (if s \<noteq> [] \<and> list_all is_digit s
      then Inr (int (foldl (\<lambda>n c. 10 * n + (of_char c - 48)) 0 s))
      else Inl ValueError)"

section \<open>evaluate\_model.py: the judge and the Judgment Parser\<close>

text \<open>
  The value \<^verbatim>\<open>json.loads\<close> returns. A \<open>JObject\<close> holds the items of the Python
  \<^verbatim>\<open>dict\<close>, so its keys are distinct.
\<close>

datatype json =
    JNull
  | JBool bool
  | JNumber real
  | JString string
  | JArray "json list"
  | JObject "(string \<times> json) list"

text \<open>
  \<^verbatim>\<open>create_evaluation_prompt\<close> fills the fixed template with three stripped texts;
  the prompt is given by these three.
\<close>

datatype prompt = Prompt (p_criterion: string) (p_model_response: string) (p_user_query: string)

definition create_evaluation_prompt :: "string \<Rightarrow> string \<Rightarrow> string \<Rightarrow> prompt" where
  "create_evaluation_prompt criterion' model_response user_query =
     Prompt (strip criterion') (strip model_response) (strip user_query)"

text \<open>
  What the run does to the outside, in order: the requests sent to the judge, the calls
  of \<^verbatim>\<open>time.sleep\<close>, the parser's warning and the writes of the output file.
\<close>

datatype eval_event =
    JudgeCall prompt
  | Sleep real
  | Warning string
  | WriteOutput "eval_record list"

text \<open>
  The external judge: \<^verbatim>\<open>client.chat.completions.create\<close> followed by the reads of
  \<^verbatim>\<open>choices[0].message.content\<close>. It raises, or it gives the content, which may be
  \<^verbatim>\<open>None\<close>. Its answer may depend on everything that happened before the call.
  \<open>json_loads\<close> is \<^verbatim>\<open>json.loads\<close>, \<open>None\<close> when it raises.
\<close>

datatype judge_reply = JudgeRaises string | JudgeContent "string option"

record evaluator =
  judge :: "eval_event list \<Rightarrow> prompt \<Rightarrow> judge_reply"
  json_loads :: "string \<Rightarrow> json option"

text \<open>
  The Judgment Parser: lines 235 to 273 of \<^verbatim>\<open>call_gpt_evaluator\<close>. \<open>json_verdict\<close>
  is the body of the inner \<^verbatim>\<open>try\<close> after \<^verbatim>\<open>json.loads\<close>; \<open>None\<close> means that
  none of its \<^verbatim>\<open>return\<close>s was reached.
\<close>

definition json_verdict :: "json \<Rightarrow> string option" where
  "json_verdict parsed =
     (case parsed of
        JArray (first # rest) \<Rightarrow>
          (case first of
             JObject items \<Rightarrow>
               (case map_of items ''met'' of
                  Some (JBool met) \<Rightarrow> Some (if met then ''1'' else ''0'')
                | Some (JString met) \<Rightarrow>
                    (let lowered = py_lower (strip met)
                     in if lowered = ''true'' then Some ''1''
                        else if lowered = ''false'' then Some ''0''
                        else None)
                | _ \<Rightarrow> None)
           | _ \<Rightarrow> None)
      | _ \<Rightarrow> None)"

definition judgment_parser :: "(string \<Rightarrow> json option) \<Rightarrow> string \<Rightarrow> string \<times> eval_event list" where
  \<open>judgment_parser loads text =
     (case (case loads text of Some parsed \<Rightarrow> json_verdict parsed | None \<Rightarrow> None) of
        Some result \<Rightarrow> (result, [])
      | None \<Rightarrow>
          (let lowered_text = py_lower text
           in if contains ''"met"'' lowered_text \<and> contains ''true'' lowered_text then (''1'', [])
              else if contains ''"met"'' lowered_text \<and> contains ''false'' lowered_text then (''0'', [])
              else if contains ''yes'' lowered_text \<or> contains ''satisf'' lowered_text then (''1'', [])
              else if contains ''no'' lowered_text \<or> contains ''not satisf'' lowered_text then (''0'', [])
              else (''0'', [Warning (take 160 text)])))\<close>

text \<open>
  \<^verbatim>\<open>call_gpt_evaluator\<close>: the loop \<^verbatim>\<open>for attempt in range(max_retries)\<close>, entered
  at \<open>attempt\<close>, and the final \<^verbatim>\<open>return "0"\<close> after it.
\<close>

function call_gpt_evaluator_from ::
  "evaluator \<Rightarrow> prompt \<Rightarrow> nat \<Rightarrow> nat \<Rightarrow> eval_event list \<Rightarrow> string \<times> eval_event list"
where
  "call_gpt_evaluator_from ev p max_retries attempt tr =
     (if attempt < max_retries then
        (case judge ev tr p of
           JudgeContent content \<Rightarrow>
             (let text = strip (case content of Some t \<Rightarrow> t | None \<Rightarrow> []);
                  (result, warnings) = judgment_parser (json_loads ev) text
              in (result, tr @ [JudgeCall p] @ warnings))
         | JudgeRaises e \<Rightarrow>
             if attempt < max_retries - 1 then
               call_gpt_evaluator_from ev p max_retries (attempt + 1)
                 (tr @ [JudgeCall p, Sleep (real ((attempt + 1) * 2))])
             else (''0'', tr @ [JudgeCall p]))
      else (''0'', tr))"
  by pat_completeness auto
termination
  by (relation "measure (\<lambda>(ev, p, max_retries, attempt, tr). max_retries - attempt)") auto

declare call_gpt_evaluator_from.simps [simp del]

definition call_gpt_evaluator ::
  "evaluator \<Rightarrow> prompt \<Rightarrow> nat \<Rightarrow> eval_event list \<Rightarrow> string \<times> eval_event list"
where
  "call_gpt_evaluator ev p max_retries tr = call_gpt_evaluator_from ev p max_retries 0 tr"

text \<open>\<^verbatim>\<open>evaluate_rubric_item\<close>, the Grading Client; \<^verbatim>\<open>max_retries\<close> has its default 3.\<close>

definition evaluate_rubric_item ::
  "evaluator \<Rightarrow> string \<Rightarrow> string \<Rightarrow> string \<Rightarrow> eval_event list
     \<Rightarrow> (py_error + int) \<times> eval_event list"
where
  "evaluate_rubric_item ev criterion' model_response user_query tr =
     (if model_response = [] \<or> strip model_response = [] then (Inr 0, tr)
      else
        (let p = create_evaluation_prompt criterion' model_response user_query;
             (result, tr') = call_gpt_evaluator ev p 3 tr
         in (py_int result, tr')))"

section \<open>evaluate\_model.py: the Case Grader\<close>

text \<open>
  The loop \<^verbatim>\<open>for rubric_idx, rubric_item in enumerate(rubric_items, 1)\<close> of
  \<^verbatim>\<open>process_evaluations\<close>, entered at position \<open>rubric_idx\<close> with the dictionary
  \<open>model_evaluations\<close> built so far. \<^verbatim>\<open>int(result)\<close> may raise; the exception is
  not caught and ends the run.
\<close>

fun grade_rubric_items ::
  "evaluator \<Rightarrow> string \<Rightarrow> string \<Rightarrow> nat \<Rightarrow> rubric_item list \<Rightarrow> evaluations
     \<Rightarrow> eval_event list \<Rightarrow> py_error + (evaluations \<times> eval_event list)"
where
  "grade_rubric_items ev model_response user_query rubric_idx [] model_evaluations tr =
     Inr (model_evaluations, tr)"
| "grade_rubric_items ev model_response user_query rubric_idx (rubric_item # rest)
       model_evaluations tr =
     (if criterion rubric_item = [] then
        grade_rubric_items ev model_response user_query (rubric_idx + 1) rest model_evaluations tr
      else
        (case evaluate_rubric_item ev (criterion rubric_item) model_response user_query tr of
           (Inl err, tr') \<Rightarrow> Inl err
         | (Inr score, tr') \<Rightarrow>
             grade_rubric_items ev model_response user_query (rubric_idx + 1) rest
               (AList.update (''rubric_'' @ str_nat rubric_idx)
                  \<lparr>j_criterion = criterion rubric_item,
                   j_points = points rubric_item,
                   j_axe = axe rubric_item,
                   j_score = score,
                   j_weighted_score = points rubric_item * real_of_int score\<rparr>
                  model_evaluations)
               (tr' @ [Sleep (2 / 10)])))"

section \<open>evaluate\_model.py: the Grading Run Controller\<close>

text \<open>
  What the output file holds when the run starts: no file, a file that \<^verbatim>\<open>json.load\<close>
  cannot read, a JSON value that is not a list, or a list of records.
\<close>

datatype 'a json_file = NoFile | Unreadable | NotAList | JsonList "'a list"

text \<open>The resume block: \<open>existing_evaluations\<close>, keyed by \<^verbatim>\<open>str(case_id)\<close>.\<close>

definition load_existing_evaluations ::
  "bool \<Rightarrow> eval_record json_file \<Rightarrow> (string \<times> eval_record) list"
where
  "load_existing_evaluations resume output_file =
     (if resume then
        (case output_file of
           JsonList existing_list \<Rightarrow>
             foldl (\<lambda>d e. case er_case_id e of
                             None \<Rightarrow> d
                           | Some cid \<Rightarrow> AList.update (str_id cid) e d)
                   [] existing_list
         | _ \<Rightarrow> [])
      else [])"

text \<open>
  A model result is the dictionary of its text fields. \<open>lookup_response\<close> is the read
  of the configured field with the fall-back to \<^verbatim>\<open>response\<close>.
\<close>

type_synonym model_case = "(string \<times> string) list"

definition lookup_response :: "string \<Rightarrow> model_case \<Rightarrow> string" where
  "lookup_response response_field model_case =
     (let model_response = (case map_of model_case response_field of Some t \<Rightarrow> t | None \<Rightarrow> [])
      in if model_response = [] \<and> response_field \<noteq> ''response''
         then (case map_of model_case ''response'' of Some t \<Rightarrow> t | None \<Rightarrow> [])
         else model_response)"

record eval_run =
  model_results :: "(string \<times> model_case) list"
  response_field :: string
  max_cases :: "int option"
  existing_evaluations :: "(string \<times> eval_record) list"

record loop_state =
  results :: "eval_record list"
  processed_count :: nat
  trace :: "eval_event list"

definition empty_record :: "pyid \<Rightarrow> eval_record" where
  "empty_record case_id = \<lparr>er_case_id = Some case_id, er_evaluations = []\<rparr>"

text \<open>The body of the loop over \<^verbatim>\<open>rubric_data\<close>, after the \<^verbatim>\<open>max_cases\<close> test.\<close>

definition process_case ::
  "evaluator \<Rightarrow> eval_run \<Rightarrow> rubric_case \<Rightarrow> loop_state \<Rightarrow> py_error + loop_state"
where
  "process_case ev run c st =
     (case rc_case_id c of
        None \<Rightarrow> Inr st
      | Some case_id \<Rightarrow>
          (let case_id_str = str_id case_id;
               rubric_items = rc_rubric_items c
           in if rubric_items = [] then
                (if map_of (existing_evaluations run) case_id_str = None
                 then Inr (st\<lparr>results := results st @ [empty_record case_id]\<rparr>)
                 else Inr st)
              else
                (case map_of (existing_evaluations run) case_id_str of
                   Some e \<Rightarrow> Inr (st\<lparr>results := results st @ [e]\<rparr>)
                 | None \<Rightarrow>
                     (let n = processed_count st + 1
                      in case map_of (model_results run) case_id_str of
                           None \<Rightarrow>
                             Inr (st\<lparr>results := results st @ [empty_record case_id],
                                     processed_count := n\<rparr>)
                         | Some model_case \<Rightarrow>
                             (let model_response = lookup_response (response_field run) model_case
                              in if model_response = [] then
                                   Inr (st\<lparr>results := results st @ [empty_record case_id],
                                           processed_count := n\<rparr>)
                                 else
                                   (let user_query =
                                          strip (rc_narrative c @ [CHR 0x0A, CHR 0x0A]
                                                   @ rc_core_request c)
                                    in case grade_rubric_items ev model_response user_query 1
                                              rubric_items [] (trace st) of
                                         Inl err \<Rightarrow> Inl err
                                       | Inr (model_evaluations, tr) \<Rightarrow>
                                           (let results' = results st
                                                  @ [\<lparr>er_case_id = Some case_id,
                                                      er_evaluations = model_evaluations\<rparr>]
                                            in Inr \<lparr>results = results',
                                                    processed_count = n,
                                                    trace =
                                                      (if n mod 5 = 0
                                                       then tr @ [WriteOutput
                                                              (map snd (existing_evaluations run)
                                                                 @ results')]
                                                       else tr)\<rparr>)))))))"

definition reached_max_cases :: "eval_run \<Rightarrow> loop_state \<Rightarrow> bool" where
  "reached_max_cases run st =
     (case max_cases run of None \<Rightarrow> False | Some m \<Rightarrow> int (processed_count st) \<ge> m)"

fun eval_loop ::
  "evaluator \<Rightarrow> eval_run \<Rightarrow> rubric_case list \<Rightarrow> loop_state \<Rightarrow> py_error + loop_state"
where
  "eval_loop ev run [] st = Inr st"
| "eval_loop ev run (c # cs) st =
     (if reached_max_cases run st then Inr st
      else (case process_case ev run c st of
              Inl err \<Rightarrow> Inl err
            | Inr st' \<Rightarrow> eval_loop ev run cs st'))"

text \<open>
  \<^verbatim>\<open>process_evaluations\<close>, from the loaded rubric and model results on. It returns
  \<open>final_results\<close>, the list of the last write, and the trace of the run.
\<close>

definition process_evaluations ::
  "evaluator \<Rightarrow> rubric_case list \<Rightarrow> (string \<times> model_case) list \<Rightarrow> eval_record json_file
     \<Rightarrow> string \<Rightarrow> int option \<Rightarrow> bool \<Rightarrow> py_error + (eval_record list \<times> eval_event list)"
where
  "process_evaluations ev rubric_data model_results' output_file response_field' max_cases' resume =
     (let existing = load_existing_evaluations resume output_file;
          run = \<lparr>model_results = model_results', response_field = response_field',
                 max_cases = max_cases', existing_evaluations = existing\<rparr>
      in case eval_loop ev run rubric_data \<lparr>results = [], processed_count = 0, trace = []\<rparr> of
           Inl err \<Rightarrow> Inl err
         | Inr st \<Rightarrow>
             (let final_results = map snd existing @ results st
              in Inr (final_results, trace st @ [WriteOutput final_results])))"

section \<open>run\_model.py: the Response Run Controller\<close>



record gen_record =
  gr_case_id :: "pyid option"
  gr_post_time :: string
  gr_narrative :: string
  gr_core_request :: string
  gr_model_response :: string
  gr_finish_reason :: string
  gr_doctor_advice :: string

text \<open>
  \<^verbatim>\<open>create_prompt\<close> puts an instruction, chosen by \<^verbatim>\<open>has_chinese\<close>, before the
  narrative and the request. The instruction is a function of the two texts, so the
  prompt is given by them; the header itself is not part of the model.
\<close>

datatype gen_prompt = GenPrompt (gp_narrative: string) (gp_core_request: string)


datatype gen_event =
    GenCall string gen_prompt
  | GenSleep real
  | SaveResults "gen_record list"

text \<open>
  The generation call: it raises, or it gives \<^verbatim>\<open>message.content\<close> and
  \<^verbatim>\<open>finish_reason\<close>, each of which may be \<^verbatim>\<open>None\<close>.
\<close>

datatype gen_reply = GenRaises string | GenResponse "string option" "string option"

type_synonym generator = "gen_event list \<Rightarrow> string \<Rightarrow> gen_prompt \<Rightarrow> gen_reply"

text \<open>
  \<^verbatim>\<open>call_chat_model\<close>. The result is \<open>None\<close> when the loop ends without a
  \<^verbatim>\<open>return\<close> (Python then returns \<^verbatim>\<open>None\<close>); otherwise it is the triple of the
  raw response (\<open>None\<close> after the last failure), the text and the finish reason.
\<close>

function call_chat_model_from ::
  "generator \<Rightarrow> string \<Rightarrow> gen_prompt \<Rightarrow> nat \<Rightarrow> nat \<Rightarrow> gen_event list
     \<Rightarrow> (gen_reply option \<times> string \<times> string) option \<times> gen_event list"
where
  "call_chat_model_from gen model p max_retries attempt tr =
     (if attempt < max_retries then
        (case gen tr model p of
           GenResponse content finish_reason \<Rightarrow>
             (Some (Some (GenResponse content finish_reason),
                    strip (case content of Some t \<Rightarrow> t | None \<Rightarrow> []),
                    (case finish_reason of
                       Some r \<Rightarrow> if r = [] then ''unknown'' else r
                     | None \<Rightarrow> ''unknown'')),
              tr @ [GenCall model p])
         | GenRaises e \<Rightarrow>
             if attempt < max_retries - 1 then
               call_chat_model_from gen model p max_retries (attempt + 1)
                 (tr @ [GenCall model p, GenSleep (real ((attempt + 1) * 2))])
             else (Some (None, ''ERROR: '' @ e, ''error''), tr @ [GenCall model p]))
      else (None, tr))"
  by pat_completeness auto
termination
  by (relation "measure (\<lambda>(gen, model, p, max_retries, attempt, tr). max_retries - attempt)") auto

declare call_chat_model_from.simps [simp del]

definition call_chat_model ::
  "generator \<Rightarrow> string \<Rightarrow> gen_prompt \<Rightarrow> nat \<Rightarrow> gen_event list
     \<Rightarrow> (gen_reply option \<times> string \<times> string) option \<times> gen_event list"
where
  "call_chat_model gen model p max_retries tr = call_chat_model_from gen model p max_retries 0 tr"






section \<open>The specification's formulas and sample inputs\<close>

text \<open>
  The two sums as section 4.6 of the specification words them: the positive points of the
  rubric, and the weighted scores of the evaluation entries whose criterion is a
  criterion of the rubric.
\<close>

definition spec_max_possible_score :: "rubric_item list \<Rightarrow> real" where
  "spec_max_possible_score rubric_items =
     sum_list (map points (filter (\<lambda>item. points item > 0) rubric_items))"

definition spec_case_total_score :: "evaluations \<Rightarrow> rubric_item list \<Rightarrow> real" where
  "spec_case_total_score evals rubric_items =
     sum_list (map j_weighted_score
       (filter (\<lambda>j. j_criterion j \<in> criterion ` set rubric_items) (map snd evals)))"

text \<open>A rubric item and an evaluation entry that both carry the empty criterion.\<close>

definition unnamed_item :: rubric_item where
  "unnamed_item = \<lparr>criterion = [], points = 5, axe = ''accuracy''\<rparr>"

definition unnamed_evals :: evaluations where
  "unnamed_evals =
     [(''rubric_1'', \<lparr>j_criterion = [], j_points = 5, j_axe = ''accuracy'',
                      j_score = 1, j_weighted_score = 5\<rparr>)]"

text \<open>
  A record graded when criterion \<^verbatim>\<open>X\<close> was worth 20 points, read against a rubric
  file in which it is now worth 10.
\<close>

definition stale_evals :: evaluations where
  "stale_evals =
     [(''rubric_1'', \<lparr>j_criterion = ''X'', j_points = 20, j_axe = ''accuracy'',
                      j_score = 1, j_weighted_score = 20\<rparr>)]"

definition edited_rubric :: "rubric_item list" where
  "edited_rubric = [\<lparr>criterion = ''X'', points = 10, axe = ''accuracy''\<rparr>]"

text \<open>The rubric of the specification's end-to-end example, with \<^verbatim>\<open>X\<close> met and \<^verbatim>\<open>Y\<close> not.\<close>

definition xy_rubric :: "rubric_item list" where
  "xy_rubric = [\<lparr>criterion = ''X'', points = 10, axe = ''accuracy''\<rparr>,
                \<lparr>criterion = ''Y'', points = - 5, axe = ''safety''\<rparr>]"

definition xy_evals :: evaluations where
  "xy_evals =
     [(''rubric_1'', \<lparr>j_criterion = ''X'', j_points = 10, j_axe = ''accuracy'',
                      j_score = 1, j_weighted_score = 10\<rparr>),
      (''rubric_2'', \<lparr>j_criterion = ''Y'', j_points = - 5, j_axe = ''safety'',
                      j_score = 0, j_weighted_score = 0\<rparr>)]"

text \<open>
  The events of \<open>k\<close> attempts with linear back-off, as section 4.2 words it: between
  two consecutive attempts a wait of \<open>attempt_index\<close> times the unit of 2 seconds.
\<close>

definition spec_retry_events :: "'e \<Rightarrow> (real \<Rightarrow> 'e) \<Rightarrow> nat \<Rightarrow> 'e list" where
  "spec_retry_events call sleep k =
     concat (map (\<lambda>attempt_index. [call, sleep (real attempt_index * 2)]) [1..<k]) @ [call]"

text \<open>
  The judge replies of section 8, the values \<^verbatim>\<open>json.loads\<close> gives for the two that
  are JSON, and a \<open>json_loads\<close> that knows these two texts only.
\<close>

definition met_true_reply :: string where
  \<open>met_true_reply = ''[{"question":"Q","met":true,"reasoning":"..."}]''\<close>

definition met_false_reply :: string where
  \<open>met_false_reply = ''[{"question":"Q","met":false,"reasoning":"..."}]''\<close>

definition met_json :: "bool \<Rightarrow> json" where
  "met_json met =
     JArray [JObject [(''question'', JString ''Q''), (''met'', JBool met),
                      (''reasoning'', JString ''...'')]]"

definition json_loads_table :: "string \<Rightarrow> json option" where
  "json_loads_table text =
     (if text = met_true_reply then Some (met_json True)
      else if text = met_false_reply then Some (met_json False)
      else None)"

text \<open>A judge and a generation service that fail on every call.\<close>

definition down_evaluator :: evaluator where
  "down_evaluator = \<lparr>judge = (\<lambda>tr p. JudgeRaises ''timeout''), json_loads = json_loads_table\<rparr>"

definition down_generator :: generator where
  "down_generator tr model p = GenRaises ''timeout''"

text \<open>
  The Case Grader as section 4.3 words it: the rubric items with a non-empty criterion,
  each with its 1-based position among all items, are graded in order, one call of the
  Grading Client each, and stored under \<^verbatim>\<open>rubric_<position>\<close>.
\<close>

definition spec_judgment :: "rubric_item \<Rightarrow> int \<Rightarrow> criterion_judgment" where
  "spec_judgment item score =
     \<lparr>j_criterion = criterion item, j_points = points item, j_axe = axe item,
      j_score = score, j_weighted_score = points item * real_of_int score\<rparr>"

fun spec_grade_indexed ::
  "evaluator \<Rightarrow> string \<Rightarrow> string \<Rightarrow> (nat \<times> rubric_item) list \<Rightarrow> evaluations
     \<Rightarrow> eval_event list \<Rightarrow> py_error + (evaluations \<times> eval_event list)"
where
  "spec_grade_indexed ev model_response user_query [] evals tr = Inr (evals, tr)"
| "spec_grade_indexed ev model_response user_query ((position, item) # rest) evals tr =
     (case evaluate_rubric_item ev (criterion item) model_response user_query tr of
        (Inl err, tr') \<Rightarrow> Inl err
      | (Inr score, tr') \<Rightarrow>
          spec_grade_indexed ev model_response user_query rest
            (evals @ [(''rubric_'' @ str_nat position, spec_judgment item score)])
            (tr' @ [Sleep (2 / 10)]))"

definition graded_positions :: "nat \<Rightarrow> rubric_item list \<Rightarrow> (nat \<times> rubric_item) list" where
  "graded_positions start rubric_items =
     filter (\<lambda>(position, item). criterion item \<noteq> [])
            (zip [start..<start + length rubric_items] rubric_items)"

definition spec_grade_case ::
  "evaluator \<Rightarrow> string \<Rightarrow> string \<Rightarrow> rubric_item list \<Rightarrow> eval_event list
     \<Rightarrow> py_error + (evaluations \<times> eval_event list)"
where
  "spec_grade_case ev model_response user_query rubric_items tr =
     spec_grade_indexed ev model_response user_query (graded_positions 1 rubric_items) [] tr"

text \<open>A judge that finds every criterion met, and a rubric whose second item has no criterion.\<close>

definition yes_evaluator :: evaluator where
  "yes_evaluator =
     \<lparr>judge = (\<lambda>tr p. JudgeContent (Some met_true_reply)), json_loads = json_loads_table\<rparr>"

definition xzy_rubric :: "rubric_item list" where
  "xzy_rubric = [\<lparr>criterion = ''X'', points = 10, axe = ''accuracy''\<rparr>,
                 \<lparr>criterion = [], points = 3, axe = ''style''\<rparr>,
                 \<lparr>criterion = ''Y'', points = - 5, axe = ''safety''\<rparr>]"

text \<open>Reading a decimal rendering back.\<close>

definition nat_of_str :: "string \<Rightarrow> nat" where
  "nat_of_str s = foldl (\<lambda>n c. 10 * n + (of_char c - 48)) 0 s"

text \<open>
  A case \<^verbatim>\<open>a\<close> that an earlier run graded, the same case with an empty rubric, and a
  case \<^verbatim>\<open>b\<close> with a model result.
\<close>

definition graded_a :: eval_record where
  "graded_a = \<lparr>er_case_id = Some (IdStr ''a''), er_evaluations = xy_evals\<rparr>"

definition case_a :: rubric_case where
  "case_a = \<lparr>rc_case_id = Some (IdStr ''a''), rc_post_time = ''2025-04-08T00:00:00'',
              rc_narrative = ''N'', rc_core_request = ''Q'', rc_rubric_items = xy_rubric\<rparr>"

definition case_a_no_rubric :: rubric_case where
  "case_a_no_rubric = case_a\<lparr>rc_rubric_items := []\<rparr>"

definition case_b :: rubric_case where
  "case_b = \<lparr>rc_case_id = Some (IdStr ''b''), rc_post_time = ''2025-04-09T00:00:00'',
              rc_narrative = ''N'', rc_core_request = ''Q'', rc_rubric_items = xzy_rubric\<rparr>"

definition results_b :: "(string \<times> model_case) list" where
  "results_b = [(''b'', [(''case_id'', ''b''), (''model_response'', ''R'')])]"

definition resumed_run :: eval_run where
  "resumed_run = \<lparr>model_results = [], response_field = ''model_response'', max_cases = None,
                   existing_evaluations = [(''a'', graded_a)]\<rparr>"

definition fresh_state :: loop_state where
  "fresh_state = \<lparr>results = [], processed_count = 0, trace = []\<rparr>"














text \<open>The record that grading case \<^verbatim>\<open>b\<close> with the all-yes judge produces.\<close>

definition graded_b :: eval_record where
  "graded_b =
     \<lparr>er_case_id = Some (IdStr ''b''),
      er_evaluations =
        [(''rubric_1'', \<lparr>j_criterion = ''X'', j_points = 10, j_axe = ''accuracy'',
                         j_score = 1, j_weighted_score = 10\<rparr>),
         (''rubric_3'', \<lparr>j_criterion = ''Y'', j_points = - 5, j_axe = ''safety'',
                         j_score = 1, j_weighted_score = - 5\<rparr>)]\<rparr>"

section \<open>Score Normalizer: proofs\<close>

lemma foldl_max_score:
  "foldl (\<lambda>max_score item. if points item > 0 then max_score + points item else max_score) a items
     = a + sum_list (map points (filter (\<lambda>item. points item > 0) items))"
  by (induction items arbitrary: a) auto

lemma rubric_criteria_keys_acc:
  "fst ` set (foldl (\<lambda>d item. if criterion item \<noteq> []
                                then AList.update (criterion item) (points item) d else d) d0 items)
     = fst ` set d0 \<union> {c. c \<noteq> [] \<and> c \<in> criterion ` set items}"
  by (induction items arbitrary: d0) (auto simp: dom_update)

lemma rubric_criteria_member:
  "map_of (rubric_criteria items) c \<noteq> None \<longleftrightarrow> c \<noteq> [] \<and> c \<in> criterion ` set items"
proof -
  have "map_of (rubric_criteria items) c \<noteq> None \<longleftrightarrow> c \<in> fst ` set (rubric_criteria items)"
    by (simp add: map_of_eq_None_iff)
  then show ?thesis
    unfolding rubric_criteria_def rubric_criteria_keys_acc by auto
qed

lemma foldl_total_score:
  "foldl (\<lambda>total_score (key, rubric_data).
            if j_criterion rubric_data = [] \<or> map_of rc (j_criterion rubric_data) = None
            then total_score else total_score + j_weighted_score rubric_data) a evals
     = a + sum_list (map j_weighted_score
             (filter (\<lambda>j. j_criterion j \<noteq> [] \<and> map_of rc (j_criterion j) \<noteq> None) (map snd evals)))"
  by (induction evals arbitrary: a) (auto split: prod.splits)

lemma max_possible_score_eq:
  "calculate_max_possible_score items
     = sum_list (map points (filter (\<lambda>item. points item > 0) items))"
  by (simp add: calculate_max_possible_score_def foldl_max_score)

lemma case_total_score_eq:
  "calculate_case_total_score evals items =
     sum_list (map j_weighted_score
        (filter (\<lambda>j. j_criterion j \<noteq> [] \<and> j_criterion j \<in> criterion ` set items) (map snd evals)))"
proof -
  have *: "(\<lambda>j. j_criterion j \<noteq> [] \<and> map_of (rubric_criteria items) (j_criterion j) \<noteq> None)
         = (\<lambda>j. j_criterion j \<noteq> [] \<and> j_criterion j \<in> criterion ` set items)"
    by (rule ext) (use rubric_criteria_member in blast)
  show ?thesis
    unfolding calculate_case_total_score_def foldl_total_score *
    by auto
qed

lemma max_possible_score_nonneg: "0 \<le> calculate_max_possible_score items"
  unfolding max_possible_score_eq
  by (induction items) auto

lemma case_total_score_nonneg:
  assumes "\<forall>(key, j) \<in> set evals. 0 \<le> j_weighted_score j"
  shows "0 \<le> calculate_case_total_score evals items"
proof -
  have "0 \<le> sum_list (map j_weighted_score (filter P (map snd evals)))" for P
    using assms by (induction evals) auto
  then show ?thesis unfolding case_total_score_eq .
qed

text \<open>
  C3, as the code has it. \<open>max_possible_score\<close> is the sum of the points of the rubric
  items with \<open>points > 0\<close>, so an item with \<open>points \<le> 0\<close> adds nothing to it.
  \<open>case_total_score\<close> is the sum of \<open>weighted_score\<close> over exactly the evaluation
  entries whose criterion is not empty and is the criterion of an item of the current
  rubric.
\<close>

theorem C3_score_sums:
  "calculate_max_possible_score rubric_items = spec_max_possible_score rubric_items
   \<and> calculate_case_total_score evals rubric_items =
       sum_list (map j_weighted_score
         (filter (\<lambda>j. j_criterion j \<noteq> [] \<and> j_criterion j \<in> criterion ` set rubric_items)
                 (map snd evals)))"
  using max_possible_score_eq [of rubric_items] case_total_score_eq [of evals rubric_items]
  by (simp add: spec_max_possible_score_def)

text \<open>
  C3 as the specification words it fails: an entry with the empty criterion matches a
  rubric item with the empty criterion, yet the code leaves its 5 points out.
\<close>

theorem C3_empty_criterion_counterexample:
  "calculate_case_total_score unnamed_evals [unnamed_item] = 0
   \<and> spec_case_total_score unnamed_evals [unnamed_item] = 5"
  by (simp add: calculate_case_total_score_def spec_case_total_score_def
        unnamed_evals_def unnamed_item_def)

section \<open>Grading Client: proofs\<close>

lemma strip_blank:
  assumes "\<forall>c\<in>set s. py_isspace c"
  shows "strip s = []"
proof -
  from assms have d: "dropWhile py_isspace s = []" by (induction s) auto
  show ?thesis unfolding strip_def d by simp
qed

text \<open>
  C8. When the model response is empty or consists of whitespace only,
  \<open>evaluate_rubric_item\<close> returns 0 and the trace is unchanged: the judge is not called,
  whatever the criterion.
\<close>

theorem C8_blank_response_not_judged:
  assumes "\<forall>c\<in>set model_response. py_isspace c"
  shows "evaluate_rubric_item ev criterion' model_response user_query tr = (Inr 0, tr)"
  using assms by (simp add: evaluate_rubric_item_def strip_blank)

theorem C8_blank_response_not_judged_witness:
  "list_all py_isspace [CHR '' '', CHR 0x09, CHR 0x0A]
   \<and> evaluate_rubric_item down_evaluator ''X'' [CHR '' '', CHR 0x09, CHR 0x0A] ''Q'' []
       = (Inr 0, [])"
proof -
  have h: "\<forall>c\<in>set [CHR '' '', CHR 0x09, CHR 0x0A]. py_isspace c"
    by (simp add: py_isspace_def)
  show ?thesis
    using h C8_blank_response_not_judged [OF h, of down_evaluator "''X''" "''Q''" "[]"]
    by (simp add: list_all_iff)
qed

section \<open>Judgment Parser: proofs\<close>

lemma json_verdict_result:
  "json_verdict parsed = Some r \<Longrightarrow> r = ''0'' \<or> r = ''1''"
  by (auto simp: json_verdict_def Let_def split: json.splits list.splits option.splits if_splits)

lemma judgment_parser_result:
  "fst (judgment_parser loads text) = ''0'' \<or> fst (judgment_parser loads text) = ''1''"
  using json_verdict_result
  by (auto simp: judgment_parser_def Let_def split: option.splits)

lemma judgment_parser_events:
  "snd (judgment_parser loads text) = [] \<or> snd (judgment_parser loads text) = [Warning (take 160 text)]"
  by (auto simp: judgment_parser_def Let_def split: option.splits)

lemma py_int_01: "py_int ''0'' = Inr 0" "py_int ''1'' = Inr 1"
  by (simp_all add: py_int_def is_digit_def)

text \<open>
  C2. For every reply text, and whatever \<^verbatim>\<open>json.loads\<close> does with it, the Judgment
  Parser returns \<^verbatim>\<open>"0"\<close> or \<^verbatim>\<open>"1"\<close>, which \<^verbatim>\<open>int\<close> turns into 0 or 1 without
  raising. The JSON list with \<^verbatim>\<open>met\<close> true gives 1, the one with \<^verbatim>\<open>met\<close> false gives
  0, the text \<^verbatim>\<open>the criterion is satisfied\<close>, which is not JSON, gives 1, and the empty
  text gives 0 together with the warning.
\<close>

theorem C2_judgment_parser:
  "(fst (judgment_parser loads text) = ''0'' \<or> fst (judgment_parser loads text) = ''1'')
   \<and> (py_int (fst (judgment_parser loads text)) = Inr 0
        \<or> py_int (fst (judgment_parser loads text)) = Inr 1)
   \<and> (loads met_true_reply = Some (met_json True)
        \<longrightarrow> judgment_parser loads met_true_reply = (''1'', []))
   \<and> (loads met_false_reply = Some (met_json False)
        \<longrightarrow> judgment_parser loads met_false_reply = (''0'', []))
   \<and> (loads ''the criterion is satisfied'' = None
        \<longrightarrow> judgment_parser loads ''the criterion is satisfied'' = (''1'', []))
   \<and> (loads [] = None \<longrightarrow> judgment_parser loads [] = (''0'', [Warning []]))"
proof -
  have r: "fst (judgment_parser loads text) = ''0'' \<or> fst (judgment_parser loads text) = ''1''"
    by (rule judgment_parser_result)
  then have i: "py_int (fst (judgment_parser loads text)) = Inr 0
        \<or> py_int (fst (judgment_parser loads text)) = Inr 1"
    using py_int_01 by auto
  have t: "loads met_true_reply = Some (met_json True)
        \<Longrightarrow> judgment_parser loads met_true_reply = (''1'', [])"
    by (simp add: judgment_parser_def json_verdict_def met_json_def)
  have f: "loads met_false_reply = Some (met_json False)
        \<Longrightarrow> judgment_parser loads met_false_reply = (''0'', [])"
    by (simp add: judgment_parser_def json_verdict_def met_json_def)
  have s: "loads ''the criterion is satisfied'' = None
        \<Longrightarrow> judgment_parser loads ''the criterion is satisfied'' = (''1'', [])"
    by (simp add: judgment_parser_def py_lower_def lower_char_def)
  have e: "loads [] = None \<Longrightarrow> judgment_parser loads [] = (''0'', [Warning []])"
    by (simp add: judgment_parser_def py_lower_def)
  from r i t f s e show ?thesis by blast
qed

theorem C2_judgment_parser_witness:
  "judgment_parser json_loads_table met_true_reply = (''1'', [])
   \<and> judgment_parser json_loads_table met_false_reply = (''0'', [])
   \<and> judgment_parser json_loads_table ''the criterion is satisfied'' = (''1'', [])
   \<and> judgment_parser json_loads_table [] = (''0'', [Warning []])"
  using C2_judgment_parser [of json_loads_table]
  by (simp add: json_loads_table_def met_true_reply_def met_false_reply_def)

section \<open>Retries: proofs\<close>

lemma spec_retry_events_1: "spec_retry_events c s (Suc 0) = [c]"
  by (simp add: spec_retry_events_def)

lemma spec_retry_events_2: "spec_retry_events c s 2 = [c, s 2, c]"
  by (simp add: spec_retry_events_def upt_rec)

lemma spec_retry_events_3: "spec_retry_events c s 3 = [c, s 2, c, s 4, c]"
  by (simp add: spec_retry_events_def upt_rec)
lemma call_gpt_evaluator_from_result:
  "fst (call_gpt_evaluator_from ev p m a tr) = ''0'' \<or> fst (call_gpt_evaluator_from ev p m a tr) = ''1''"
proof (induction ev p m a tr rule: call_gpt_evaluator_from.induct)
  case (1 ev p max_retries attempt tr)
  show ?case
  proof (cases "attempt < max_retries")
    case False
    then show ?thesis by (simp add: call_gpt_evaluator_from.simps)
  next
    case True
    show ?thesis
    proof (cases "judge ev tr p")
      case (JudgeContent content)
      then show ?thesis
        using True judgment_parser_result [of "json_loads ev" "strip (case content of Some t \<Rightarrow> t | None \<Rightarrow> [])"]
        by (subst (1 2) call_gpt_evaluator_from.simps) (auto simp: Let_def split: prod.splits)
    next
      case (JudgeRaises e)
      then show ?thesis
        using True "1.IH" [OF True JudgeRaises]
        by (subst (1 2) call_gpt_evaluator_from.simps) auto
    qed
  qed
qed
lemma evaluate_rubric_item_total:
  "\<exists>score tr'. evaluate_rubric_item ev c r q tr = (Inr score, tr') \<and> (score = 0 \<or> score = 1)"
  using call_gpt_evaluator_from_result [of ev "create_evaluation_prompt c r q" 3 0 tr]
  by (auto simp: evaluate_rubric_item_def call_gpt_evaluator_def Let_def py_int_01 split: prod.splits)
lemma call_gpt_evaluator_3:
  "call_gpt_evaluator ev p 3 tr =
     (case judge ev tr p of
        JudgeContent c1 \<Rightarrow>
          (fst (judgment_parser (json_loads ev) (strip (case c1 of Some t \<Rightarrow> t | None \<Rightarrow> []))),
           tr @ [JudgeCall p]
             @ snd (judgment_parser (json_loads ev) (strip (case c1 of Some t \<Rightarrow> t | None \<Rightarrow> []))))
      | JudgeRaises e1 \<Rightarrow>
          (case judge ev (tr @ [JudgeCall p, Sleep 2]) p of
             JudgeContent c2 \<Rightarrow>
               (fst (judgment_parser (json_loads ev) (strip (case c2 of Some t \<Rightarrow> t | None \<Rightarrow> []))),
                tr @ [JudgeCall p, Sleep 2, JudgeCall p]
                  @ snd (judgment_parser (json_loads ev) (strip (case c2 of Some t \<Rightarrow> t | None \<Rightarrow> []))))
           | JudgeRaises e2 \<Rightarrow>
               (case judge ev (tr @ [JudgeCall p, Sleep 2, JudgeCall p, Sleep 4]) p of
                  JudgeContent c3 \<Rightarrow>
                    (fst (judgment_parser (json_loads ev) (strip (case c3 of Some t \<Rightarrow> t | None \<Rightarrow> []))),
                     tr @ [JudgeCall p, Sleep 2, JudgeCall p, Sleep 4, JudgeCall p]
                       @ snd (judgment_parser (json_loads ev) (strip (case c3 of Some t \<Rightarrow> t | None \<Rightarrow> []))))
                | JudgeRaises e3 \<Rightarrow>
                    (''0'', tr @ [JudgeCall p, Sleep 2, JudgeCall p, Sleep 4, JudgeCall p]))))"
  unfolding call_gpt_evaluator_def
  apply (subst call_gpt_evaluator_from.simps)
  apply (subst call_gpt_evaluator_from.simps)
  apply (subst call_gpt_evaluator_from.simps)
  apply (auto simp: Let_def split: judge_reply.splits prod.splits)
  done

lemma call_chat_model_3:
  "call_chat_model gen model p 3 tr =
     (case gen tr model p of
        GenResponse c f \<Rightarrow>
          (Some (Some (GenResponse c f), strip (case c of Some t \<Rightarrow> t | None \<Rightarrow> []),
                 (case f of Some r \<Rightarrow> if r = [] then ''unknown'' else r | None \<Rightarrow> ''unknown'')),
           tr @ [GenCall model p])
      | GenRaises e1 \<Rightarrow>
          (case gen (tr @ [GenCall model p, GenSleep 2]) model p of
             GenResponse c f \<Rightarrow>
               (Some (Some (GenResponse c f), strip (case c of Some t \<Rightarrow> t | None \<Rightarrow> []),
                      (case f of Some r \<Rightarrow> if r = [] then ''unknown'' else r | None \<Rightarrow> ''unknown'')),
                tr @ [GenCall model p, GenSleep 2, GenCall model p])
           | GenRaises e2 \<Rightarrow>
               (case gen (tr @ [GenCall model p, GenSleep 2, GenCall model p, GenSleep 4]) model p of
                  GenResponse c f \<Rightarrow>
                    (Some (Some (GenResponse c f), strip (case c of Some t \<Rightarrow> t | None \<Rightarrow> []),
                           (case f of Some r \<Rightarrow> if r = [] then ''unknown'' else r | None \<Rightarrow> ''unknown'')),
                     tr @ [GenCall model p, GenSleep 2, GenCall model p, GenSleep 4, GenCall model p])
                | GenRaises e3 \<Rightarrow>
                    (Some (None, ''ERROR: '' @ e3, ''error''),
                     tr @ [GenCall model p, GenSleep 2, GenCall model p, GenSleep 4, GenCall model p]))))"
  unfolding call_chat_model_def
  apply (subst call_chat_model_from.simps)
  apply (subst call_chat_model_from.simps)
  apply (subst call_chat_model_from.simps)
  apply (auto simp: Let_def split: gen_reply.splits prod.splits)
  done

text \<open>
  C7. With \<^verbatim>\<open>max_retries\<close> at its default 3, the judge call makes \<open>k\<close> attempts for
  some \<open>k\<close> from 1 to 3, separated by waits of 2 and 4 seconds (attempt index times 2),
  and then at most the parser's warning. When all three attempts raise, whatever the
  exceptions, it returns \<^verbatim>\<open>"0"\<close>, the score 0. The generation call makes between 1 and
  3 attempts with the same waits and always returns a triple; when all three attempts
  raise it returns no raw response, the text \<^verbatim>\<open>ERROR: \<close> followed by the last
  exception, and the status \<^verbatim>\<open>error\<close>.
\<close>

theorem C7_bounded_retries:
  "(\<exists>k warnings. 1 \<le> k \<and> k \<le> 3
       \<and> snd (call_gpt_evaluator ev p 3 tr)
           = tr @ spec_retry_events (JudgeCall p) Sleep k @ warnings
       \<and> (warnings = [] \<or> (\<exists>t. warnings = [Warning t])))
   \<and> (judge ev tr p = JudgeRaises e1
        \<and> judge ev (tr @ [JudgeCall p, Sleep 2]) p = JudgeRaises e2
        \<and> judge ev (tr @ [JudgeCall p, Sleep 2, JudgeCall p, Sleep 4]) p = JudgeRaises e3
        \<longrightarrow> call_gpt_evaluator ev p 3 tr = (''0'', tr @ spec_retry_events (JudgeCall p) Sleep 3)
            \<and> py_int (fst (call_gpt_evaluator ev p 3 tr)) = Inr 0)
   \<and> (\<exists>k r. 1 \<le> k \<and> k \<le> 3
       \<and> call_chat_model gen model q 3 gtr
           = (Some r, gtr @ spec_retry_events (GenCall model q) GenSleep k))
   \<and> (gen gtr model q = GenRaises g1
        \<and> gen (gtr @ [GenCall model q, GenSleep 2]) model q = GenRaises g2
        \<and> gen (gtr @ [GenCall model q, GenSleep 2, GenCall model q, GenSleep 4]) model q
            = GenRaises g3
        \<longrightarrow> call_chat_model gen model q 3 gtr
              = (Some (None, ''ERROR: '' @ g3, ''error''),
                 gtr @ spec_retry_events (GenCall model q) GenSleep 3))"
proof -
  let ?J = "JudgeCall p" and ?G = "GenCall model q"
  have a: "\<exists>k warnings. 1 \<le> k \<and> k \<le> 3
       \<and> snd (call_gpt_evaluator ev p 3 tr) = tr @ spec_retry_events ?J Sleep k @ warnings
       \<and> (warnings = [] \<or> (\<exists>t. warnings = [Warning t]))"
  proof (cases "judge ev tr p")
    case (JudgeContent c1)
    then have "snd (call_gpt_evaluator ev p 3 tr) = tr @ spec_retry_events ?J Sleep 1
        @ snd (judgment_parser (json_loads ev) (strip (case c1 of Some t \<Rightarrow> t | None \<Rightarrow> [])))"
      by (simp add: call_gpt_evaluator_3 spec_retry_events_1)
    then show ?thesis
      using judgment_parser_events by (metis le_refl one_le_numeral)
  next
    case e1: (JudgeRaises e1)
    show ?thesis
    proof (cases "judge ev (tr @ [?J, Sleep 2]) p")
      case (JudgeContent c2)
      then have "snd (call_gpt_evaluator ev p 3 tr) = tr @ spec_retry_events ?J Sleep 2
          @ snd (judgment_parser (json_loads ev) (strip (case c2 of Some t \<Rightarrow> t | None \<Rightarrow> [])))"
        using e1 by (simp add: call_gpt_evaluator_3 spec_retry_events_2)
      moreover have "(1::nat) \<le> 2" "(2::nat) \<le> 3" by simp_all
      ultimately show ?thesis
        using judgment_parser_events by metis
    next
      case e2: (JudgeRaises e2)
      show ?thesis
      proof (cases "judge ev (tr @ [?J, Sleep 2, ?J, Sleep 4]) p")
        case (JudgeContent c3)
        then have "snd (call_gpt_evaluator ev p 3 tr) = tr @ spec_retry_events ?J Sleep 3
            @ snd (judgment_parser (json_loads ev) (strip (case c3 of Some t \<Rightarrow> t | None \<Rightarrow> [])))"
          using e1 e2 by (simp add: call_gpt_evaluator_3 spec_retry_events_3)
        moreover have "(1::nat) \<le> 3" "(3::nat) \<le> 3" by simp_all
        ultimately show ?thesis
          using judgment_parser_events by metis
      next
        case (JudgeRaises e3)
        then have "snd (call_gpt_evaluator ev p 3 tr) = tr @ spec_retry_events ?J Sleep 3 @ []"
          using e1 e2 by (simp add: call_gpt_evaluator_3 spec_retry_events_3)
        moreover have "(1::nat) \<le> 3" "(3::nat) \<le> 3" by simp_all
        ultimately show ?thesis by blast
      qed
    qed
  qed
  have b: "judge ev tr p = JudgeRaises e1
        \<and> judge ev (tr @ [?J, Sleep 2]) p = JudgeRaises e2
        \<and> judge ev (tr @ [?J, Sleep 2, ?J, Sleep 4]) p = JudgeRaises e3
        \<longrightarrow> call_gpt_evaluator ev p 3 tr = (''0'', tr @ spec_retry_events ?J Sleep 3)
            \<and> py_int (fst (call_gpt_evaluator ev p 3 tr)) = Inr 0"
    by (simp add: call_gpt_evaluator_3 spec_retry_events_3 py_int_01)
  have c: "\<exists>k r. 1 \<le> k \<and> k \<le> 3
       \<and> call_chat_model gen model q 3 gtr = (Some r, gtr @ spec_retry_events ?G GenSleep k)"
  proof (cases "gen gtr model q")
    case (GenResponse c f)
    then have "\<exists>r. call_chat_model gen model q 3 gtr = (Some r, gtr @ spec_retry_events ?G GenSleep 1)"
      by (simp add: call_chat_model_3 spec_retry_events_1)
    then show ?thesis by (metis le_refl one_le_numeral)
  next
    case g1: (GenRaises g1)
    show ?thesis
    proof (cases "gen (gtr @ [?G, GenSleep 2]) model q")
      case (GenResponse c f)
      then have "\<exists>r. call_chat_model gen model q 3 gtr
                   = (Some r, gtr @ spec_retry_events ?G GenSleep 2)"
        using g1 by (simp add: call_chat_model_3 spec_retry_events_2)
      moreover have "(1::nat) \<le> 2" "(2::nat) \<le> 3" by simp_all
      ultimately show ?thesis by blast
    next
      case g2: (GenRaises g2)
      have "\<exists>r. call_chat_model gen model q 3 gtr
                   = (Some r, gtr @ spec_retry_events ?G GenSleep 3)"
        using g1 g2
        by (cases "gen (gtr @ [?G, GenSleep 2, ?G, GenSleep 4]) model q")
           (simp_all add: call_chat_model_3 spec_retry_events_3)
      moreover have "(1::nat) \<le> 3" "(3::nat) \<le> 3" by simp_all
      ultimately show ?thesis by blast
    qed
  qed
  have d: "gen gtr model q = GenRaises g1
        \<and> gen (gtr @ [?G, GenSleep 2]) model q = GenRaises g2
        \<and> gen (gtr @ [?G, GenSleep 2, ?G, GenSleep 4]) model q = GenRaises g3
        \<longrightarrow> call_chat_model gen model q 3 gtr
              = (Some (None, ''ERROR: '' @ g3, ''error''), gtr @ spec_retry_events ?G GenSleep 3)"
    by (simp add: call_chat_model_3 spec_retry_events_3)
  from a b c d show ?thesis by blast
qed

theorem C7_bounded_retries_witness:
  "call_gpt_evaluator down_evaluator (Prompt ''X'' ''R'' ''Q'') 3 []
     = (''0'', [JudgeCall (Prompt ''X'' ''R'' ''Q''), Sleep 2,
                JudgeCall (Prompt ''X'' ''R'' ''Q''), Sleep 4,
                JudgeCall (Prompt ''X'' ''R'' ''Q'')])
   \<and> call_chat_model down_generator ''gpt'' (GenPrompt ''N'' ''R'') 3 []
     = (Some (None, ''ERROR: timeout'', ''error''),
        [GenCall ''gpt'' (GenPrompt ''N'' ''R''), GenSleep 2,
         GenCall ''gpt'' (GenPrompt ''N'' ''R''), GenSleep 4,
         GenCall ''gpt'' (GenPrompt ''N'' ''R'')])"
  using C7_bounded_retries [of down_evaluator "Prompt ''X'' ''R'' ''Q''" "[]"
      "''timeout''" "''timeout''" "''timeout''" down_generator "''gpt''" "GenPrompt ''N'' ''R''" "[]"
      "''timeout''" "''timeout''" "''timeout''"]
  by (simp add: down_evaluator_def down_generator_def spec_retry_events_3)

section \<open>Case Grader: proofs\<close>

lemma nat_of_str_snoc: "nat_of_str (s @ [c]) = 10 * nat_of_str s + (of_char c - 48)"
  by (simp add: nat_of_str_def)

lemma of_char_digit: "d < 10 \<Longrightarrow> (of_char (digit_char d) :: nat) = 48 + d"
  by (simp add: digit_char_def)

lemma nat_of_str_str_nat: "nat_of_str (str_nat n) = n"
proof (induction n rule: str_nat.induct)
  case (1 n)
  show ?case
  proof (cases "n < 10")
    case True
    then show ?thesis
      by (subst str_nat.simps) (simp add: nat_of_str_def of_char_digit)
  next
    case False
    then have "nat_of_str (str_nat n) = 10 * nat_of_str (str_nat (n div 10)) + n mod 10"
      by (subst str_nat.simps) (simp add: nat_of_str_snoc of_char_digit)
    with False "1.IH" show ?thesis by simp
  qed
qed

lemma str_nat_inject: "str_nat m = str_nat n \<Longrightarrow> m = n"
  by (metis nat_of_str_str_nat)

lemma update_fresh: "k \<notin> fst ` set al \<Longrightarrow> AList.update k v al = al @ [(k, v)]"
  by (induction al) auto

lemma graded_positions_Cons:
  "graded_positions k (item # rest) =
     (if criterion item \<noteq> [] then [(k, item)] else []) @ graded_positions (Suc k) rest"
proof -
  have "[k..<k + length (item # rest)] = k # [Suc k..<Suc k + length rest]"
    using upt_conv_Cons [of k "k + length (item # rest)"] by (simp del: upt_Suc)
  then show ?thesis by (simp add: graded_positions_def)
qed

lemma grade_rubric_items_refines:
  assumes "fst ` set acc \<subseteq> (\<lambda>i. ''rubric_'' @ str_nat i) ` {i. i < k}"
  shows "grade_rubric_items ev r q k items acc tr
           = spec_grade_indexed ev r q (graded_positions k items) acc tr"
  using assms
proof (induction items arbitrary: k acc tr)
  case Nil
  then show ?case by (simp add: graded_positions_def)
next
  case (Cons item rest)
  have mono: "(\<lambda>i. ''rubric_'' @ str_nat i) ` {i. i < k} \<subseteq> (\<lambda>i. ''rubric_'' @ str_nat i) ` {i. i < Suc k}"
    by auto
  show ?case
  proof (cases "criterion item = []")
    case True
    have inv0: "fst ` set acc \<subseteq> (\<lambda>i. ''rubric_'' @ str_nat i) ` {i. i < Suc k}"
      using Cons.prems mono by (rule subset_trans)
    show ?thesis
      using True Cons.IH [OF inv0, of tr]
      by (simp add: graded_positions_Cons)
  next
    case False
    have fresh: "''rubric_'' @ str_nat k \<notin> fst ` set acc"
    proof
      assume "''rubric_'' @ str_nat k \<in> fst ` set acc"
      with Cons.prems obtain i where "i < k" and "''rubric_'' @ str_nat k = ''rubric_'' @ str_nat i"
        by blast
      then have "k = i" using str_nat_inject by simp
      with \<open>i < k\<close> show False by simp
    qed
    show ?thesis
    proof (cases "evaluate_rubric_item ev (criterion item) r q tr")
      case (Pair res tr')
      show ?thesis
      proof (cases res)
        case (Inl err)
        then show ?thesis using False Pair by (simp add: graded_positions_Cons)
      next
        case (Inr score)
        have inv: "fst ` set (acc @ [(''rubric_'' @ str_nat k, spec_judgment item score)])
                 \<subseteq> (\<lambda>i. ''rubric_'' @ str_nat i) ` {i. i < Suc k}"
        proof -
          have "''rubric_'' @ str_nat k \<in> (\<lambda>i. ''rubric_'' @ str_nat i) ` {i. i < Suc k}"
            by (rule image_eqI [where x = k]) simp_all
          moreover have "fst ` set acc \<subseteq> (\<lambda>i. ''rubric_'' @ str_nat i) ` {i. i < Suc k}"
            using Cons.prems mono by (rule subset_trans)
          ultimately show ?thesis by simp
        qed
        show ?thesis
          using False Pair Inr Cons.IH [OF inv] update_fresh [OF fresh]
          by (simp add: graded_positions_Cons spec_judgment_def)
      qed
    qed
  qed
qed

lemma spec_grade_indexed_result:
  "\<exists>scores tr'.
     spec_grade_indexed ev r q pairs acc tr
       = Inr (acc @ map (\<lambda>((position, item), score).
                          (''rubric_'' @ str_nat position, spec_judgment item score))
                        (zip pairs scores), tr')
     \<and> length scores = length pairs
     \<and> list_all (\<lambda>score. score = 0 \<or> score = 1) scores"
proof (induction pairs arbitrary: acc tr)
  case Nil
  then show ?case by simp
next
  case (Cons pair rest)
  obtain position item where pair: "pair = (position, item)" by (cases pair)
  obtain score tr1 where ev1: "evaluate_rubric_item ev (criterion item) r q tr = (Inr score, tr1)"
    and s01: "score = 0 \<or> score = 1"
    using evaluate_rubric_item_total by blast
  obtain scores tr' where
    rec: "spec_grade_indexed ev r q rest
            (acc @ [(''rubric_'' @ str_nat position, spec_judgment item score)])
            (tr1 @ [Sleep (2 / 10)])
          = Inr ((acc @ [(''rubric_'' @ str_nat position, spec_judgment item score)])
                   @ map (\<lambda>((position, item), score).
                            (''rubric_'' @ str_nat position, spec_judgment item score))
                         (zip rest scores), tr')"
    and len: "length scores = length rest"
    and all: "list_all (\<lambda>score. score = 0 \<or> score = 1) scores"
    using Cons.IH by blast
  have "spec_grade_indexed ev r q (pair # rest) acc tr
       = Inr (acc @ map (\<lambda>((position, item), score).
                          (''rubric_'' @ str_nat position, spec_judgment item score))
                        (zip (pair # rest) (score # scores)), tr')"
    using pair ev1 rec by simp
  moreover have "length (score # scores) = length (pair # rest)" using len by simp
  moreover have "list_all (\<lambda>score. score = 0 \<or> score = 1) (score # scores)"
    using s01 all by simp
  ultimately show ?case by blast
qed

text \<open>
  C6. The Case Grader does what section 4.3 says: it grades the items with a non-empty
  criterion in rubric order, calls the Grading Client for these and for no other item,
  and never raises. The stored judgments are, in this order, those of the graded items,
  each under \<^verbatim>\<open>rubric_<k>\<close> with \<open>k\<close> the 1-based position of its item among all
  items of the rubric, with the item's criterion, points and axe, a score that is 0 or 1,
  and \<open>weighted_score = points * score\<close>.
\<close>

theorem C6_case_grader:
  "grade_rubric_items ev model_response user_query 1 rubric_items [] tr
     = spec_grade_case ev model_response user_query rubric_items tr
   \<and> (\<exists>scores tr'.
         grade_rubric_items ev model_response user_query 1 rubric_items [] tr
           = Inr (map (\<lambda>((position, item), score).
                         (''rubric_'' @ str_nat position, spec_judgment item score))
                      (zip (graded_positions 1 rubric_items) scores), tr')
         \<and> length scores = length (graded_positions 1 rubric_items)
         \<and> list_all (\<lambda>score. score = 0 \<or> score = 1) scores)"
proof -
  have r: "grade_rubric_items ev model_response user_query 1 rubric_items [] tr
     = spec_grade_case ev model_response user_query rubric_items tr"
    unfolding spec_grade_case_def by (rule grade_rubric_items_refines) simp
  show ?thesis
    using r spec_grade_indexed_result [of ev model_response user_query "graded_positions 1 rubric_items" "[]" tr]
    unfolding spec_grade_case_def by simp
qed

lemma yes_evaluator_grades:
  "evaluate_rubric_item yes_evaluator c ''R'' q tr
     = (Inr 1, tr @ [JudgeCall (Prompt (strip c) ''R'' (strip q))])"
  by (simp add: evaluate_rubric_item_def call_gpt_evaluator_3 yes_evaluator_def
        create_evaluation_prompt_def strip_def py_isspace_def judgment_parser_def
        json_loads_table_def met_true_reply_def json_verdict_def met_json_def py_int_01)

lemma yes_evaluator_grades_xzy:
  "grade_rubric_items yes_evaluator ''R'' ''Q'' 1 xzy_rubric [] []
     = Inr (er_evaluations graded_b,
            [JudgeCall (Prompt ''X'' ''R'' ''Q''), Sleep (2 / 10),
             JudgeCall (Prompt ''Y'' ''R'' ''Q''), Sleep (2 / 10)])"
proof -
  have k: "str_nat (Suc 0) = ''1''" "str_nat (Suc (Suc (Suc 0))) = ''3''" by code_simp+
  have s: "strip ''X'' = ''X''" "strip ''Y'' = ''Y''" "strip ''Q'' = ''Q''"
    by (simp_all add: strip_def py_isspace_def)
  show ?thesis
    by (simp add: xzy_rubric_def graded_b_def yes_evaluator_grades k s)
qed

theorem C6_case_grader_witness:
  "grade_rubric_items yes_evaluator ''R'' ''Q'' 1 xzy_rubric [] []
     = Inr ([(''rubric_1'', \<lparr>j_criterion = ''X'', j_points = 10, j_axe = ''accuracy'',
                              j_score = 1, j_weighted_score = 10\<rparr>),
             (''rubric_3'', \<lparr>j_criterion = ''Y'', j_points = - 5, j_axe = ''safety'',
                              j_score = 1, j_weighted_score = - 5\<rparr>)],
            [JudgeCall (Prompt ''X'' ''R'' ''Q''), Sleep (2 / 10),
             JudgeCall (Prompt ''Y'' ''R'' ''Q''), Sleep (2 / 10)])
   \<and> spec_grade_case yes_evaluator ''R'' ''Q'' xzy_rubric []
     = Inr (er_evaluations graded_b,
            [JudgeCall (Prompt ''X'' ''R'' ''Q''), Sleep (2 / 10),
             JudgeCall (Prompt ''Y'' ''R'' ''Q''), Sleep (2 / 10)])"
  using C6_case_grader [of yes_evaluator "''R''" "''Q''" xzy_rubric "[]"]
    yes_evaluator_grades_xzy
  by (simp add: graded_b_def)

section \<open>Score range: proofs\<close>

lemma sum_list_filter_le:
  fixes f :: "'a \<Rightarrow> real"
  assumes "\<forall>x\<in>set xs. 0 \<le> f x"
  shows "sum_list (map f (filter P xs)) \<le> sum_list (map f xs)"
  using assms by (induction xs) auto

lemma max_possible_score_as_max:
  "calculate_max_possible_score items = sum_list (map (\<lambda>item. max 0 (points item)) items)"
  unfolding max_possible_score_eq by (induction items) auto

lemma map_snd_zip_upt: "map snd (zip [a..<a + length xs] xs) = xs"
  by simp

lemma graded_positions_sum_le:
  "sum_list (map (\<lambda>(position, item). max 0 (points item)) (graded_positions a items))
     \<le> sum_list (map (\<lambda>item. max 0 (points item)) items)"
proof -
  let ?z = "zip [a..<a + length items] items"
  have "sum_list (map (\<lambda>(position, item). max 0 (points item)) (graded_positions a items))
          \<le> sum_list (map (\<lambda>(position, item). max 0 (points item)) ?z)"
    unfolding graded_positions_def by (rule sum_list_filter_le) auto
  also have "map (\<lambda>(position, item). max 0 (points item)) ?z
               = map (\<lambda>item. max 0 (points item)) (map snd ?z)"
    unfolding map_map by (rule map_cong [OF refl]) auto
  also have "map snd ?z = items" by (rule map_snd_zip_upt)
  finally show ?thesis .
qed

lemma graded_entries_bound:
  assumes "length scores = length pairs"
    and "list_all (\<lambda>score. score = 0 \<or> score = 1) scores"
  shows "sum_list (map j_weighted_score (filter P
           (map snd (map (\<lambda>((position, item), score).
                           (''rubric_'' @ str_nat position, spec_judgment item score))
                         (zip pairs scores)))))
         \<le> sum_list (map (\<lambda>(position, item). max 0 (points item)) pairs)"
  using assms
proof (induction pairs arbitrary: scores)
  case Nil
  then show ?case by simp
next
  case (Cons pair rest)
  obtain position item where pair: "pair = (position, item)" by (cases pair)
  from Cons.prems obtain score scores' where sc: "scores = score # scores'"
    by (cases scores) auto
  from Cons.prems sc have len: "length scores' = length rest"
    and all: "list_all (\<lambda>score. score = 0 \<or> score = 1) scores'"
    and s01: "score = 0 \<or> score = 1" by auto
  have w: "j_weighted_score (spec_judgment item score) \<le> max 0 (points item)"
    using s01 by (auto simp: spec_judgment_def)
  have m: "0 \<le> max 0 (points item)" by simp
  show ?case
    using Cons.IH [OF len all, of ] w m
    by (auto simp: pair sc)
qed

lemma graded_total_le_max:
  assumes "grade_rubric_items ev model_response user_query 1 rubric_items [] tr = Inr (evals, tr')"
  shows "calculate_case_total_score evals rubric_items
           \<le> calculate_max_possible_score rubric_items"
proof -
  have ref: "grade_rubric_items ev model_response user_query 1 rubric_items [] tr
           = spec_grade_indexed ev model_response user_query (graded_positions 1 rubric_items) [] tr"
    by (rule grade_rubric_items_refines) simp
  obtain scores tr2 where
    res: "spec_grade_indexed ev model_response user_query (graded_positions 1 rubric_items) [] tr
            = Inr ([] @ map (\<lambda>((position, item), score).
                          (''rubric_'' @ str_nat position, spec_judgment item score))
                        (zip (graded_positions 1 rubric_items) scores), tr2)"
    and len: "length scores = length (graded_positions 1 rubric_items)"
    and all: "list_all (\<lambda>score. score = 0 \<or> score = 1) scores"
    using spec_grade_indexed_result by blast
  have ev: "evals = map (\<lambda>((position, item), score).
                          (''rubric_'' @ str_nat position, spec_judgment item score))
                        (zip (graded_positions 1 rubric_items) scores)"
    using assms ref res by simp
  have "calculate_case_total_score evals rubric_items
          \<le> sum_list (map (\<lambda>(position, item). max 0 (points item)) (graded_positions 1 rubric_items))"
    unfolding case_total_score_eq ev by (rule graded_entries_bound [OF len all])
  also have "\<dots> \<le> sum_list (map (\<lambda>item. max 0 (points item)) rubric_items)"
    by (rule graded_positions_sum_le)
  finally show ?thesis by (simp add: max_possible_score_as_max)
qed

text \<open>
  C4, as the code has it. When every evaluation entry has a non-negative weighted score,
  the score of the case is at least 0. It is at most 1 when the total does not exceed
  \<open>max_possible_score\<close>, as it does not for the evaluations that the Case Grader
  produced from the same rubric; the score of a case is not clipped. When
  \<open>max_possible_score\<close> is 0 the score is exactly 0.
\<close>

theorem C4_normalized_score_range:
  "((\<forall>(key, j) \<in> set evals. 0 \<le> j_weighted_score j)
      \<longrightarrow> 0 \<le> per_example_score evals rubric_items)
   \<and> (calculate_case_total_score evals rubric_items
         \<le> calculate_max_possible_score rubric_items
       \<longrightarrow> per_example_score evals rubric_items \<le> 1)
   \<and> (grade_rubric_items ev model_response user_query 1 rubric_items [] tr = Inr (evals, tr')
       \<longrightarrow> per_example_score evals rubric_items \<le> 1)
   \<and> (calculate_max_possible_score rubric_items = 0
       \<longrightarrow> per_example_score evals rubric_items = 0)"
proof -
  have m: "0 \<le> calculate_max_possible_score rubric_items"
    by (rule max_possible_score_nonneg)
  have a: "0 \<le> per_example_score evals rubric_items"
    if "\<forall>(key, j) \<in> set evals. 0 \<le> j_weighted_score j"
    using case_total_score_nonneg [OF that, of rubric_items] m
    by (simp add: per_example_score_def Let_def)
  have b: "per_example_score evals rubric_items \<le> 1"
    if "calculate_case_total_score evals rubric_items \<le> calculate_max_possible_score rubric_items"
    using that by (simp add: per_example_score_def Let_def divide_le_eq_1)
  have c: "per_example_score evals rubric_items \<le> 1"
    if "grade_rubric_items ev model_response user_query 1 rubric_items [] tr = Inr (evals, tr')"
    using graded_total_le_max [OF that] by (rule b)
  have d: "per_example_score evals rubric_items = 0"
    if "calculate_max_possible_score rubric_items = 0"
    using that by (simp add: per_example_score_def Let_def)
  from a b c d show ?thesis by blast
qed

theorem C4_normalized_score_range_witness:
  "list_all (\<lambda>(key, j). 0 \<le> j_weighted_score j) xy_evals
   \<and> 0 \<le> per_example_score xy_evals xy_rubric
   \<and> per_example_score xy_evals xy_rubric \<le> 1
   \<and> per_example_score (er_evaluations graded_b) xzy_rubric \<le> 1
   \<and> per_example_score xy_evals [] = 0"
proof -
  have h: "\<forall>(key, j) \<in> set xy_evals. 0 \<le> j_weighted_score j"
    by (simp add: xy_evals_def)
  have v: "calculate_case_total_score xy_evals xy_rubric = 10"
          "calculate_max_possible_score xy_rubric = 10"
          "calculate_max_possible_score [] = 0"
    by (simp_all add: calculate_case_total_score_def calculate_max_possible_score_def
          rubric_criteria_def xy_evals_def xy_rubric_def)
  from h have l: "list_all (\<lambda>(key, j). 0 \<le> j_weighted_score j) xy_evals"
    by (simp add: list_all_iff)
  show ?thesis
    using h l v yes_evaluator_grades_xzy
      C4_normalized_score_range [of xy_evals xy_rubric]
      C4_normalized_score_range [of "er_evaluations graded_b" xzy_rubric yes_evaluator
         "''R''" "''Q''" "[]"]
      C4_normalized_score_range [of xy_evals "[]"]
    by simp
qed

text \<open>
  C4 as the specification words it fails: the stale record has a non-negative weighted
  score, and its case scores 2.
\<close>

theorem C4_stale_record_counterexample:
  "j_weighted_score (snd (hd stale_evals)) = 20
   \<and> length stale_evals = 1
   \<and> per_example_score stale_evals edited_rubric = 2"
  by (simp add: per_example_score_def calculate_case_total_score_def
        calculate_max_possible_score_def rubric_criteria_def stale_evals_def edited_rubric_def)

section \<open>Grading Run Controller: proofs\<close>

text \<open>
  C1, at a resumed run over the one case \<^verbatim>\<open>a\<close> that the existing output file already
  holds: the stored record is appended to \<open>results\<close> and the final write puts the
  values of \<open>existing_evaluations\<close> before \<open>results\<close>, so the output holds the record
  of \<^verbatim>\<open>a\<close> twice. With a new case \<^verbatim>\<open>b\<close> before \<^verbatim>\<open>a\<close> in the rubric file, the
  second copy of the resumed record comes after the newly produced record of \<^verbatim>\<open>b\<close>.
\<close>

theorem C1_resume_duplicates:
  "process_evaluations ev [case_a] [] (JsonList [graded_a]) ''model_response'' None True
     = Inr ([graded_a, graded_a], [WriteOutput [graded_a, graded_a]])
   \<and> map_sum id fst
        (process_evaluations yes_evaluator [case_b, case_a] results_b (JsonList [graded_a])
           ''model_response'' None True)
     = Inr [graded_a, graded_b, graded_a]"
proof -
  have k: "str_nat (Suc 0) = ''1''" "str_nat (Suc (Suc (Suc 0))) = ''3''" by code_simp+
  have one: "process_evaluations ev [case_a] [] (JsonList [graded_a]) ''model_response'' None True
     = Inr ([graded_a, graded_a], [WriteOutput [graded_a, graded_a]])"
    by (simp add: process_evaluations_def load_existing_evaluations_def process_case_def
          reached_max_cases_def case_a_def graded_a_def xy_rubric_def Let_def)
  have two: "map_sum id fst
        (process_evaluations yes_evaluator [case_b, case_a] results_b (JsonList [graded_a])
           ''model_response'' None True)
     = Inr [graded_a, graded_b, graded_a]"
    by (simp add: process_evaluations_def load_existing_evaluations_def process_case_def
          reached_max_cases_def case_a_def case_b_def graded_a_def graded_b_def results_b_def
          lookup_response_def xy_rubric_def xzy_rubric_def yes_evaluator_grades k Let_def)
  from one two show ?thesis by simp
qed

text \<open>
  C9, as the code has it. A case with an id and an empty rubric, reached before
  \<^verbatim>\<open>max_cases\<close> stops the loop, is settled before the already-graded check and without
  any judge call, write or count: the empty record is appended when the id is not among
  the previously loaded results, and nothing is appended when it is.
\<close>

theorem C9_no_rubric_skip:
  assumes "rc_rubric_items c = []" and "rc_case_id c = Some case_id"
    and "\<not> reached_max_cases run st"
  shows "process_case ev run c st
           = Inr (if map_of (existing_evaluations run) (str_id case_id) = None
                  then st\<lparr>results := results st @ [empty_record case_id]\<rparr> else st)
         \<and> eval_loop ev run (c # cs) st
           = eval_loop ev run cs
               (if map_of (existing_evaluations run) (str_id case_id) = None
                then st\<lparr>results := results st @ [empty_record case_id]\<rparr> else st)"
  using assms by (simp add: process_case_def Let_def)

theorem C9_no_rubric_skip_witness:
  "process_case down_evaluator resumed_run case_a_no_rubric fresh_state = Inr fresh_state
   \<and> eval_loop down_evaluator resumed_run [case_a_no_rubric] fresh_state = Inr fresh_state
   \<and> process_case down_evaluator (resumed_run\<lparr>existing_evaluations := []\<rparr>)
         case_a_no_rubric fresh_state
       = Inr (fresh_state\<lparr>results := [empty_record (IdStr ''a'')]\<rparr>)"
  using C9_no_rubric_skip [of case_a_no_rubric "IdStr ''a''" resumed_run fresh_state
      down_evaluator "[]"]
    C9_no_rubric_skip [of case_a_no_rubric "IdStr ''a''"
      "resumed_run\<lparr>existing_evaluations := []\<rparr>" fresh_state down_evaluator "[]"]
  by (simp add: case_a_no_rubric_def case_a_def resumed_run_def fresh_state_def
        reached_max_cases_def)

text \<open>
  C9 as the specification words it fails: case \<^verbatim>\<open>a\<close> has no rubric items and is
  among the loaded results; the run emits no empty record for it, and the output holds
  the stored record with its two judgments.
\<close>

theorem C9_no_rubric_counterexample:
  "process_evaluations down_evaluator [case_a_no_rubric] [] (JsonList [graded_a])
       ''model_response'' None True
     = Inr ([graded_a], [WriteOutput [graded_a]])
   \<and> er_evaluations graded_a = xy_evals \<and> length xy_evals = 2"
  by (simp add: process_evaluations_def load_existing_evaluations_def process_case_def
        reached_max_cases_def case_a_no_rubric_def case_a_def graded_a_def xy_evals_def Let_def)

section \<open>Response Run Controller: proofs\<close>









section \<open>Aggregator: proofs\<close>














end
